theory Spec2Isabelle
  imports Main
begin

section \<open>Python values and their text\<close>

text \<open>
  The sweep script \<^verbatim>\<open>execution_in_loop.py\<close> passes \<^verbatim>\<open>key_length\<close> as one of
  three Python values: \<^verbatim>\<open>None\<close> (the parameter's default), an \<^verbatim>\<open>int\<close> (line 106,
  a fixed key length; line 77, the current key of a range) or a \<^verbatim>\<open>str\<close>
  (\<^verbatim>\<open>'e'\<close> for the example, line 124; \<^verbatim>\<open>'i'\<close> for a range, line 109).
\<close>

datatype pyval = PNone | PInt int | PStr string

text \<open>Python truthiness, as the conditional expression of lines 43, 45 and 47 tests it.\<close>

fun truthy :: "pyval \<Rightarrow> bool" where
  "truthy PNone = False"
| "truthy (PInt i) = (i \<noteq> 0)"
| "truthy (PStr s) = (s \<noteq> [])"

definition digit_char :: "nat \<Rightarrow> char" where
  "digit_char d = ''0123456789'' ! d"

fun digits_nat :: "nat \<Rightarrow> string" where
  "digits_nat n =
     (if n < 10 then [digit_char n]
      else digits_nat (n div 10) @ [digit_char (n mod 10)])"

declare digits_nat.simps [simp del]

text \<open>\<^verbatim>\<open>str(i)\<close> of a Python int: decimal digits, with a leading minus sign below zero.\<close>

definition str_int :: "int \<Rightarrow> string" where
  "str_int i = (if i < 0 then CHR ''-'' # digits_nat (nat (- i)) else digits_nat (nat i))"

text \<open>What an f-string replacement field writes for a value.\<close>

fun py_format :: "pyval \<Rightarrow> string" where
  "py_format PNone = ''None''"
| "py_format (PInt i) = str_int i"
| "py_format (PStr s) = s"

definition nl :: string where
  "nl = [CHR 0x0A]"

text \<open>
  \<^verbatim>\<open>s.replace(old, new)\<close> for a non-empty \<^verbatim>\<open>old\<close> (the script only calls it with
  \<^verbatim>\<open>".ipynb"\<close>): every occurrence, left to right, without overlaps.
\<close>

fun py_replace :: "string \<Rightarrow> string \<Rightarrow> string \<Rightarrow> string" where
  "py_replace old new [] = []"
| "py_replace old new (c # cs) =
     (if old \<noteq> [] \<and> take (length old) (c # cs) = old
      then new @ py_replace old new (drop (length old - 1) cs)
      else c # py_replace old new cs)"

section \<open>The payload fed to one invocation\<close>

text \<open>The field \<^verbatim>\<open>{key_length if key_length else 'e'}\<close> of lines 43, 45 and 47.\<close>

definition key_length_field :: "pyval \<Rightarrow> string" where
  "key_length_field key_length = (if truthy key_length then py_format key_length else ''e'')"

text \<open>
  Lines 41 to 47 of \<^verbatim>\<open>executionLoop\<close>: the text written to the experiment's standard
  input, one line per field.
\<close>

definition build_inputs :: "int \<Rightarrow> string option \<Rightarrow> pyval \<Rightarrow> string \<Rightarrow> string" where
  "build_inputs execute_on_which_device token key_length filename =
     (if execute_on_which_device = 1 then
        (case token of
           Some tok \<Rightarrow>
             str_int execute_on_which_device @ nl @ tok @ nl @
             key_length_field key_length @ nl @ filename @ nl
         | None \<Rightarrow>
             str_int execute_on_which_device @ nl @
             key_length_field key_length @ nl @ filename @ nl)
      else
        str_int execute_on_which_device @ nl @
        key_length_field key_length @ nl @ filename @ nl)"

text \<open>An ordered field sequence on the wire: each field followed by a newline.\<close>

definition join_lines :: "string list \<Rightarrow> string" where
  "join_lines fields = concat (map (\<lambda>f. f @ nl) fields)"

section \<open>The outside world\<close>

text \<open>
  \<^verbatim>\<open>subprocess.run\<close> either returns a completed process with its return code or raises
  (the program could not be started); \<open>Raises\<close> carries \<^verbatim>\<open>str(e)\<close>.
\<close>

datatype proc_result = Exit int | Raises string

text \<open>
  One call of \<^verbatim>\<open>subprocess.run(["python", script_name], input=inputs, text=True)\<close>
  (line 48), with the loop state it was made in: the printed execution number \<^verbatim>\<open>i+1\<close>
  and the \<^verbatim>\<open>key_length\<close> argument of the enclosing \<^verbatim>\<open>executionLoop\<close> call.
\<close>

record run_record =
  ordinal :: int
  key_length_used :: pyval
  script :: string
  stdin :: string
  outcome :: proc_result

text \<open>
  What the script has done so far: the notebooks handed to \<^verbatim>\<open>jupyter nbconvert\<close>, the
  experiment invocations in order, and the lines it printed itself.
\<close>

record world =
  conversions :: "string list"
  runs :: "run_record list"
  stdout :: "string list"

text \<open>
  What the script cannot decide: whether a path exists, how the conversion ends, and how
  each experiment invocation ends, given how many went before, the script and its input.
\<close>

record env =
  path_exists :: "string \<Rightarrow> bool"
  nbconvert :: "string \<Rightarrow> proc_result"
  runner :: "nat \<Rightarrow> string \<Rightarrow> string \<Rightarrow> proc_result"

definition py_print :: "string \<Rightarrow> world \<Rightarrow> world" where
  "py_print s w = w\<lparr>stdout := stdout w @ [s]\<rparr>"

text \<open>
  How a call ends: it returns, \<^verbatim>\<open>exit()\<close> raised \<^verbatim>\<open>SystemExit\<close> (which no
  \<^verbatim>\<open>except Exception\<close> catches), or an exception left it.
\<close>

datatype terminal = Returned | SysExit | Raised string

section \<open>The execution loop\<close>

text \<open>
  The body of \<^verbatim>\<open>for i in range(loop_count)\<close> (lines 37 to 59), over the values of
  \<^verbatim>\<open>i\<close> still to come.
\<close>

fun executionLoop_from ::
  "env \<Rightarrow> string \<Rightarrow> int \<Rightarrow> string option \<Rightarrow> pyval \<Rightarrow> string \<Rightarrow> int list \<Rightarrow> world
     \<Rightarrow> terminal \<times> world" where
  "executionLoop_from E script_name dev token key_length filename [] w = (Returned, w)"
| "executionLoop_from E script_name dev token key_length filename (i # rest) w =
     (let w1 = py_print (''------ EXECUTION NUMBER '' @ str_int (i + 1) @ '' ------'') w;
          inputs = build_inputs dev token key_length filename;
          result = runner E (length (runs w1)) script_name inputs;
          w2 = w1\<lparr>runs := runs w1 @
                 [\<lparr>ordinal = i + 1, key_length_used = key_length, script = script_name,
                   stdin = inputs, outcome = result\<rparr>]\<rparr>
      in case result of
           Raises e \<Rightarrow> (SysExit, py_print e w2)
         | Exit returncode \<Rightarrow>
             if returncode \<noteq> 0 then
               (SysExit,
                py_print ''Next executions won't be executed.''
                  (py_print (''Execution number '' @ str_int (i + 1) @
                     '' exited with an error (return code: '' @ str_int returncode @ '').'') w2))
             else executionLoop_from E script_name dev token key_length filename rest w2)"

text \<open>\<^verbatim>\<open>range(loop_count)\<close> is \<open>0, ..., loop_count - 1\<close>, empty when \<open>loop_count \<le> 0\<close>.\<close>

definition executionLoop ::
  "env \<Rightarrow> string \<Rightarrow> int \<Rightarrow> int \<Rightarrow> string option \<Rightarrow> pyval \<Rightarrow> string \<Rightarrow> world
     \<Rightarrow> terminal \<times> world" where
  "executionLoop E script_name loop_count dev token key_length filename w =
     executionLoop_from E script_name dev token key_length filename [0..loop_count - 1] w"

section \<open>The range sweep and the entry point\<close>

text \<open>
  The body of \<^verbatim>\<open>for currentKey in range(given_range_begin, given_range_end+1)\<close>
  (lines 75 to 77), over the keys still to come. A \<^verbatim>\<open>SystemExit\<close> of the inner loop
  leaves the sweep at once.
\<close>

fun range_from ::
  "env \<Rightarrow> string \<Rightarrow> int \<Rightarrow> int \<Rightarrow> string option \<Rightarrow> string \<Rightarrow> int list \<Rightarrow> world
     \<Rightarrow> terminal \<times> world" where
  "range_from E script_name loop_count dev token filename [] w = (Returned, w)"
| "range_from E script_name loop_count dev token filename (currentKey # rest) w =
     (let w1 = py_print (''Current Key Length to test: '' @ str_int currentKey) w
      in case executionLoop E script_name loop_count dev token (PInt currentKey) filename w1 of
           (Returned, w2) \<Rightarrow> range_from E script_name loop_count dev token filename rest w2
         | (t, w2) \<Rightarrow> (t, w2))"

text \<open>
  \<^verbatim>\<open>run_notebook_in_loop\<close> (lines 61 to 79). The range bounds are the ints the script
  passes whenever \<^verbatim>\<open>key_length == 'i'\<close>; \<^verbatim>\<open>range(b, e+1)\<close> is \<open>b, ..., e\<close>.
\<close>

definition run_notebook_in_loop ::
  "env \<Rightarrow> string \<Rightarrow> int \<Rightarrow> int \<Rightarrow> string option \<Rightarrow> pyval \<Rightarrow> string \<Rightarrow> int \<Rightarrow> int \<Rightarrow> world
     \<Rightarrow> terminal \<times> world" where
  "run_notebook_in_loop E notebook_name loop_count dev token key_length filename
       given_range_begin given_range_end w =
     (if \<not> path_exists E notebook_name then
        (Returned, py_print (''The file '' @ notebook_name @ '' does not exist.'') w)
      else
        (let w1 = w\<lparr>conversions := conversions w @ [notebook_name]\<rparr>
         in case nbconvert E notebook_name of
              Raises e \<Rightarrow> (Raised e, w1)
            | Exit rc \<Rightarrow>
                (let script_name = py_replace ''.ipynb'' ''.py'' notebook_name
                 in if key_length = PStr ''i'' then
                      range_from E script_name loop_count dev token filename
                        [given_range_begin..given_range_end]
                        (py_print (''Range: '' @ str_int given_range_begin @ '' - '' @
                           str_int given_range_end) w1)
                    else
                      executionLoop E script_name loop_count dev token key_length filename w1)))"

text \<open>The state before the script has run anything.\<close>

definition world0 :: world where
  "world0 = \<lparr>conversions = [], runs = [], stdout = []\<rparr>"

section \<open>Reading the record of a sweep\<close>

definition succeeded :: "run_record \<Rightarrow> bool" where
  "succeeded r = (outcome r = Exit 0)"

text \<open>
  The invocations a call adds to the record: when it ends in \<^verbatim>\<open>exit()\<close> the last one did
  not succeed and all before it did; otherwise all of them succeeded.
\<close>

definition sweep_shape :: "terminal \<Rightarrow> run_record list \<Rightarrow> bool" where
  "sweep_shape t new =
     (if t = SysExit
      then new \<noteq> [] \<and> list_all succeeded (butlast new) \<and> \<not> succeeded (last new)
      else list_all succeeded new)"

text \<open>
  The last line the script prints before \<^verbatim>\<open>exit()\<close>: the exception's text (line 58)
  or the fixed notice of line 54.
\<close>

definition exit_message :: "proc_result \<Rightarrow> string" where
  "exit_message r =
     (case r of Raises e \<Rightarrow> e | Exit rc \<Rightarrow> ''Next executions won't be executed.'')"

section \<open>Concrete environments\<close>

definition env_ok :: env where
  "env_ok =
     \<lparr>path_exists = (\<lambda>p. True), nbconvert = (\<lambda>p. Exit 0), runner = (\<lambda>n s i. Exit 0)\<rparr>"

definition env_fail_at :: "nat \<Rightarrow> int \<Rightarrow> env" where
  "env_fail_at k rc =
     \<lparr>path_exists = (\<lambda>p. True), nbconvert = (\<lambda>p. Exit 0),
      runner = (\<lambda>n s i. if n = k then Exit rc else Exit 0)\<rparr>"

definition env_raise_at :: "nat \<Rightarrow> string \<Rightarrow> env" where
  "env_raise_at k msg =
     \<lparr>path_exists = (\<lambda>p. True), nbconvert = (\<lambda>p. Exit 0),
      runner = (\<lambda>n s i. if n = k then Raises msg else Exit 0)\<rparr>"

definition env_missing :: env where
  "env_missing =
     \<lparr>path_exists = (\<lambda>p. False), nbconvert = (\<lambda>p. Exit 0), runner = (\<lambda>n s i. Exit 0)\<rparr>"

section \<open>Text of small numbers\<close>

lemma str_int_0: "str_int 0 = ''0''"
  by code_simp


section \<open>The shape of the record\<close>

lemma sweep_shape_Cons: "succeeded r \<Longrightarrow> sweep_shape t new \<Longrightarrow> sweep_shape t (r # new)"
  by (auto simp: sweep_shape_def)

lemma sweep_shape_append:
  "list_all succeeded xs \<Longrightarrow> sweep_shape t new \<Longrightarrow> sweep_shape t (xs @ new)"
  by (induction xs) (simp_all add: sweep_shape_Cons)

lemma sweep_shape_failed: "\<not> succeeded r \<Longrightarrow> sweep_shape SysExit [r]"
  by (simp add: sweep_shape_def)

lemma sweep_shape_index:
  assumes "sweep_shape t new" "i < length new" "\<not> succeeded (new ! i)"
  shows "length new = Suc i \<and> t = SysExit"
proof -
  have t: "t = SysExit"
    using assms by (auto simp: sweep_shape_def list_all_length split: if_splits)
  with assms(1) have bl: "list_all succeeded (butlast new)"
    by (simp add: sweep_shape_def)
  have "\<not> i < length (butlast new)"
  proof
    assume less: "i < length (butlast new)"
    with bl have "succeeded (butlast new ! i)" by (simp add: list_all_length)
    with less assms(3) show False by (simp add: nth_butlast)
  qed
  with assms(2) have "length new = Suc i" by simp
  with t show ?thesis by simp
qed

lemma executionLoop_from_shape:
  "executionLoop_from E s dev tok kl f js w = (t, w') \<Longrightarrow>
     \<exists>new. runs w' = runs w @ new \<and> sweep_shape t new"
proof (induction js arbitrary: w)
  case Nil
  then show ?case by (auto simp: sweep_shape_def)
next
  case (Cons i js)
  let ?w1 = "py_print (''------ EXECUTION NUMBER '' @ str_int (i + 1) @ '' ------'') w"
  let ?inputs = "build_inputs dev tok kl f"
  let ?res = "runner E (length (runs ?w1)) s ?inputs"
  let ?r = "\<lparr>ordinal = i + 1, key_length_used = kl, script = s, stdin = ?inputs,
             outcome = ?res\<rparr>"
  let ?w2 = "?w1\<lparr>runs := runs ?w1 @ [?r]\<rparr>"
  show ?case
  proof (cases "?res = Exit 0")
    case True
    with Cons.prems have "executionLoop_from E s dev tok kl f js ?w2 = (t, w')"
      by (simp add: Let_def)
    from Cons.IH [OF this] obtain new where n: "runs w' = runs ?w2 @ new" "sweep_shape t new"
      by blast
    from True have "succeeded ?r" by (simp add: succeeded_def)
    with n(2) have "sweep_shape t (?r # new)" by (simp add: sweep_shape_Cons)
    moreover from n(1) have "runs w' = runs w @ ?r # new" by (simp add: py_print_def)
    ultimately show ?thesis by blast
  next
    case False
    with Cons.prems have "t = SysExit \<and> runs w' = runs w @ [?r]"
      by (auto simp: Let_def py_print_def split: proc_result.splits if_splits)
    moreover from False have "sweep_shape SysExit [?r]"
      by (simp add: sweep_shape_failed succeeded_def)
    ultimately show ?thesis by blast
  qed
qed

lemma executionLoop_shape:
  "executionLoop E s n dev tok kl f w = (t, w') \<Longrightarrow>
     \<exists>new. runs w' = runs w @ new \<and> sweep_shape t new"
  unfolding executionLoop_def by (rule executionLoop_from_shape)

lemma range_from_shape:
  "range_from E s n dev tok f ks w = (t, w') \<Longrightarrow>
     \<exists>new. runs w' = runs w @ new \<and> sweep_shape t new"
proof (induction ks arbitrary: w)
  case Nil
  then show ?case by (auto simp: sweep_shape_def)
next
  case (Cons k ks)
  let ?w1 = "py_print (''Current Key Length to test: '' @ str_int k) w"
  obtain t1 w2 where el: "executionLoop E s n dev tok (PInt k) f ?w1 = (t1, w2)"
    by (cases "executionLoop E s n dev tok (PInt k) f ?w1")
  from executionLoop_shape [OF el]
  obtain new1 where n1: "runs w2 = runs w @ new1" "sweep_shape t1 new1"
    by (auto simp: py_print_def)
  show ?case
  proof (cases "t1 = Returned")
    case True
    with el Cons.prems have "range_from E s n dev tok f ks w2 = (t, w')"
      by simp
    from Cons.IH [OF this] obtain new2 where n2: "runs w' = runs w2 @ new2" "sweep_shape t new2"
      by blast
    from True n1(2) have "list_all succeeded new1" by (simp add: sweep_shape_def)
    with n2(2) have "sweep_shape t (new1 @ new2)" by (simp add: sweep_shape_append)
    with n1(1) n2(1) show ?thesis by auto
  next
    case False
    with el Cons.prems have "t = t1 \<and> w' = w2"
      by (auto split: terminal.splits)
    with n1 show ?thesis by blast
  qed
qed

lemma run_notebook_in_loop_shape:
  assumes "run_notebook_in_loop E nb n dev tok kl f b e w = (t, w')"
  shows "\<exists>new. runs w' = runs w @ new \<and> sweep_shape t new"
proof (cases "path_exists E nb")
  case False
  with assms show ?thesis
    by (auto simp: run_notebook_in_loop_def py_print_def sweep_shape_def)
next
  case True
  show ?thesis
  proof (cases "nbconvert E nb")
    case (Raises x)
    with True assms show ?thesis
      by (auto simp: run_notebook_in_loop_def sweep_shape_def)
  next
    case (Exit rc)
    show ?thesis
    proof (cases "kl = PStr ''i''")
      case kl: True
      with True Exit assms range_from_shape show ?thesis
        by (fastforce simp: run_notebook_in_loop_def Let_def py_print_def)
    next
      case kl: False
      with True Exit assms executionLoop_shape show ?thesis
        by (fastforce simp: run_notebook_in_loop_def Let_def)
    qed
  qed
qed

section \<open>What is printed last before the script exits\<close>

lemma executionLoop_from_message:
  "executionLoop_from E s dev tok kl f js w = (SysExit, w') \<Longrightarrow>
     runs w' \<noteq> [] \<and> stdout w' \<noteq> [] \<and>
     last (stdout w') = exit_message (outcome (last (runs w')))"
proof (induction js arbitrary: w)
  case Nil
  then show ?case by simp
next
  case (Cons i js)
  let ?w1 = "py_print (''------ EXECUTION NUMBER '' @ str_int (i + 1) @ '' ------'') w"
  let ?inputs = "build_inputs dev tok kl f"
  let ?res = "runner E (length (runs ?w1)) s ?inputs"
  let ?r = "\<lparr>ordinal = i + 1, key_length_used = kl, script = s, stdin = ?inputs,
             outcome = ?res\<rparr>"
  let ?w2 = "?w1\<lparr>runs := runs ?w1 @ [?r]\<rparr>"
  show ?case
  proof (cases "?res = Exit 0")
    case True
    with Cons.prems have "executionLoop_from E s dev tok kl f js ?w2 = (SysExit, w')"
      by (simp add: Let_def)
    then show ?thesis by (rule Cons.IH)
  next
    case False
    with Cons.prems show ?thesis
      by (auto simp: Let_def py_print_def exit_message_def split: proc_result.splits if_splits)
  qed
qed

lemma range_from_message:
  "range_from E s n dev tok f ks w = (SysExit, w') \<Longrightarrow>
     runs w' \<noteq> [] \<and> stdout w' \<noteq> [] \<and>
     last (stdout w') = exit_message (outcome (last (runs w')))"
proof (induction ks arbitrary: w)
  case Nil
  then show ?case by simp
next
  case (Cons k ks)
  let ?w1 = "py_print (''Current Key Length to test: '' @ str_int k) w"
  obtain t1 w2 where el: "executionLoop E s n dev tok (PInt k) f ?w1 = (t1, w2)"
    by (cases "executionLoop E s n dev tok (PInt k) f ?w1")
  show ?case
  proof (cases "t1 = Returned")
    case True
    with el Cons.prems have "range_from E s n dev tok f ks w2 = (SysExit, w')"
      by simp
    then show ?thesis by (rule Cons.IH)
  next
    case False
    with el Cons.prems have "t1 = SysExit \<and> w' = w2"
      by (auto split: terminal.splits)
    with el show ?thesis
      by (auto simp: executionLoop_def dest: executionLoop_from_message)
  qed
qed

lemma run_notebook_in_loop_message:
  assumes "run_notebook_in_loop E nb n dev tok kl f b e w = (SysExit, w')"
  shows "runs w' \<noteq> [] \<and> stdout w' \<noteq> [] \<and>
     last (stdout w') = exit_message (outcome (last (runs w')))"
proof -
  from assms have pe: "path_exists E nb"
    by (auto simp: run_notebook_in_loop_def split: if_splits)
  with assms obtain rc where rc: "nbconvert E nb = Exit rc"
    by (cases "nbconvert E nb") (auto simp: run_notebook_in_loop_def)
  show ?thesis
  proof (cases "kl = PStr ''i''")
    case True
    with pe rc assms show ?thesis
      by (auto simp: run_notebook_in_loop_def Let_def dest: range_from_message)
  next
    case False
    with pe rc assms show ?thesis
      by (auto simp: run_notebook_in_loop_def Let_def executionLoop_def
          dest: executionLoop_from_message)
  qed
qed

section \<open>The record when every invocation succeeds\<close>







section \<open>Claims about the sweep\<close>

text \<open>
  Claim C1. Stop on first failure: in the record of a whole sweep (one key length or a
  range), an invocation that did not return exit status 0 is the last one, and the sweep
  ended in \<^verbatim>\<open>exit()\<close>. So when the first nonzero exit status is that of invocation
  number \<open>k = i + 1\<close> (counted across the sweep), exactly \<open>k\<close> invocations were made:
  none for the remaining repetitions, none for a later key length.
\<close>

theorem stop_on_first_failure:
  assumes "run_notebook_in_loop E nb n dev tok kl f b e w0 = (t, w)"
    and "runs w0 = []"
    and "i < length (runs w)"
    and "outcome (runs w ! i) \<noteq> Exit 0"
  shows "length (runs w) = Suc i \<and> t = SysExit"
proof -
  from run_notebook_in_loop_shape [OF assms(1)] assms(2)
  have "sweep_shape t (runs w)" by auto
  from sweep_shape_index [OF this assms(3)] assms(4) show ?thesis
    by (simp add: succeeded_def)
qed

theorem stop_on_first_failure_witness:
  "length (runs (snd (run_notebook_in_loop (env_fail_at 1 1) ''q.ipynb'' 5 0 None (PInt 7)
       ''/r.csv'' 0 1 world0))) = 2
   \<and> fst (run_notebook_in_loop (env_fail_at 1 1) ''q.ipynb'' 5 0 None (PInt 7)
       ''/r.csv'' 0 1 world0) = SysExit"
proof -
  let ?X = "run_notebook_in_loop (env_fail_at 1 1) ''q.ipynb'' 5 0 None (PInt 7)
              ''/r.csv'' 0 1 world0"
  have 1: "?X = (fst ?X, snd ?X)" by simp
  have 2: "runs world0 = []" by (simp add: world0_def)
  have 3: "1 < length (runs (snd ?X))" by code_simp
  have 4: "outcome (runs (snd ?X) ! 1) \<noteq> Exit 0" by code_simp
  from stop_on_first_failure [OF 1 2 3 4] show ?thesis by simp
qed

text \<open>
  Claim C7, as stated, fails: a sweep whose first invocation cannot be started and a sweep
  whose first invocation returns exit status 1 end in the same way, the \<^verbatim>\<open>exit()\<close> of
  lines 59 and 55. There is no terminal state of its own for the dispatch failure.
\<close>

theorem dispatch_failure_same_exit_counterexample:
  "fst (run_notebook_in_loop (env_raise_at 0 ''cannot start'') ''q.ipynb'' 3 0 None (PInt 7)
          ''/r.csv'' 0 1 world0)
   = fst (run_notebook_in_loop (env_fail_at 0 1) ''q.ipynb'' 3 0 None (PInt 7)
          ''/r.csv'' 0 1 world0)"
  by code_simp

text \<open>
  Claim C7, amended. If the experiment cannot be started at all for some invocation, the
  whole sweep stops there: that invocation is the last of the record (no remaining
  repetition, no later key length), the sweep ends in the same \<^verbatim>\<open>exit()\<close> as after a
  failing run, and what tells the two apart is the last line printed, which is the
  exception's text.
\<close>

theorem dispatch_failure_stops_sweep:
  assumes "run_notebook_in_loop E nb n dev tok kl f b e w0 = (t, w)"
    and "runs w0 = []"
    and "i < length (runs w)"
    and "outcome (runs w ! i) = Raises msg"
  shows "length (runs w) = Suc i \<and> t = SysExit \<and> stdout w \<noteq> [] \<and> last (stdout w) = msg"
proof -
  from run_notebook_in_loop_shape [OF assms(1)] assms(2)
  have "sweep_shape t (runs w)" by auto
  from sweep_shape_index [OF this assms(3)] assms(4)
  have len: "length (runs w) = Suc i" and t: "t = SysExit"
    by (simp_all add: succeeded_def)
  from len have "last (runs w) = runs w ! i"
    by (cases "runs w" rule: rev_cases) (simp_all add: nth_append)
  with run_notebook_in_loop_message [OF assms(1) [unfolded t]] assms(4)
  have "stdout w \<noteq> [] \<and> last (stdout w) = msg"
    by (simp add: exit_message_def)
  with len t show ?thesis by simp
qed

theorem dispatch_failure_stops_sweep_witness:
  "length (runs (snd (run_notebook_in_loop (env_raise_at 2 ''cannot start'') ''q.ipynb'' 2 0 None
       (PStr ''i'') ''/r.csv'' 5 9 world0))) = 3 \<and>
   fst (run_notebook_in_loop (env_raise_at 2 ''cannot start'') ''q.ipynb'' 2 0 None
       (PStr ''i'') ''/r.csv'' 5 9 world0) = SysExit \<and>
   last (stdout (snd (run_notebook_in_loop (env_raise_at 2 ''cannot start'') ''q.ipynb'' 2 0 None
       (PStr ''i'') ''/r.csv'' 5 9 world0))) = ''cannot start''"
proof -
  let ?X = "run_notebook_in_loop (env_raise_at 2 ''cannot start'') ''q.ipynb'' 2 0 None
       (PStr ''i'') ''/r.csv'' 5 9 world0"
  have 1: "?X = (fst ?X, snd ?X)" by simp
  have 2: "runs world0 = []" by (simp add: world0_def)
  have 3: "2 < length (runs (snd ?X))" by code_simp
  have 4: "outcome (runs (snd ?X) ! 2) = Raises ''cannot start''" by code_simp
  from dispatch_failure_stops_sweep [OF 1 2 3 4] show ?thesis by simp
qed

section \<open>Claims about sweeps in which every invocation succeeds\<close>










section \<open>Claims about sweeps that make no invocation\<close>

text \<open>
  Claim C3, as stated, fails: for the range from 10 to 5 the sweep raises no error. It
  converts the notebook, prints the bounds, skips the empty range and returns normally.
\<close>

theorem inverted_range_returns_counterexample:
  "run_notebook_in_loop env_ok ''q.ipynb'' 3 0 None (PStr ''i'') ''/r.csv'' 10 5 world0
     = (Returned, \<lparr>conversions = [''q.ipynb''], runs = [], stdout = [''Range: 10 - 5'']\<rparr>)"
  by code_simp

text \<open>
  Claim C3, amended. For every range with begin greater than end, no invocation of the
  experiment is attempted: the range is empty, so the sweep prints the bounds, skips it and
  returns normally, without any error.
\<close>

theorem inverted_range_skipped:
  assumes "e < b" and "path_exists E nb" and "nbconvert E nb = Exit rc"
  shows "run_notebook_in_loop E nb n dev tok (PStr ''i'') f b e w =
       (Returned, py_print (''Range: '' @ str_int b @ '' - '' @ str_int e)
                    (w\<lparr>conversions := conversions w @ [nb]\<rparr>)) \<and>
     runs (snd (run_notebook_in_loop E nb n dev tok (PStr ''i'') f b e w)) = runs w"
  using assms by (simp add: run_notebook_in_loop_def Let_def py_print_def)

theorem inverted_range_skipped_witness:
  "(5::int) < 10 \<and>
   runs (snd (run_notebook_in_loop env_ok ''q.ipynb'' 3 0 None (PStr ''i'') ''/r.csv'' 10 5
      world0)) = [] \<and>
   fst (run_notebook_in_loop env_ok ''q.ipynb'' 3 0 None (PStr ''i'') ''/r.csv'' 10 5 world0)
     = Returned"
proof -
  let ?X = "run_notebook_in_loop env_ok ''q.ipynb'' 3 0 None (PStr ''i'') ''/r.csv'' 10 5 world0"
  have 1: "(5::int) < 10" by simp
  have 2: "path_exists env_ok ''q.ipynb''" by (simp add: env_ok_def)
  have 3: "nbconvert env_ok ''q.ipynb'' = Exit 0" by (simp add: env_ok_def)
  note th = inverted_range_skipped [OF 1 2 3, of 3 0 None "''/r.csv''" world0]
  from th [THEN conjunct2] have r: "runs (snd ?X) = []" by (simp add: world0_def)
  from th [THEN conjunct1] have t: "fst ?X = Returned" by simp
  from 1 r t show ?thesis by blast
qed

text \<open>
  Claim C6, as stated, fails: with a notebook path that does not exist the call raises
  nothing and returns normally, exactly as a sweep whose invocations all succeeded does;
  the caller gets no error value, only a printed line.
\<close>

theorem missing_notebook_returns_counterexample:
  "run_notebook_in_loop env_missing ''q.ipynb'' 3 0 None (PInt 7) ''/r.csv'' 0 1 world0
     = (Returned,
        \<lparr>conversions = [], runs = [], stdout = [''The file q.ipynb does not exist.'']\<rparr>)
   \<and> fst (run_notebook_in_loop env_ok ''q.ipynb'' 3 0 None (PInt 7) ''/r.csv'' 0 1 world0)
     = Returned"
  by code_simp

text \<open>
  Claim C6, amended. For every configuration whose notebook path does not exist, nothing
  is run: no conversion and no invocation of the experiment is attempted; the script
  prints that the file does not exist and returns normally.
\<close>

theorem missing_notebook_runs_nothing:
  "\<not> path_exists E nb \<Longrightarrow>
     run_notebook_in_loop E nb n dev tok kl f b e w =
       (Returned, py_print (''The file '' @ nb @ '' does not exist.'') w) \<and>
     runs (snd (run_notebook_in_loop E nb n dev tok kl f b e w)) = runs w \<and>
     conversions (snd (run_notebook_in_loop E nb n dev tok kl f b e w)) = conversions w"
  by (simp add: run_notebook_in_loop_def py_print_def)

theorem missing_notebook_runs_nothing_witness:
  "\<not> path_exists env_missing ''q.ipynb'' \<and>
   run_notebook_in_loop env_missing ''q.ipynb'' 3 0 None (PInt 7) ''/r.csv'' 0 1 world0 =
     (Returned, py_print ''The file q.ipynb does not exist.'' world0)"
proof -
  have h: "\<not> path_exists env_missing ''q.ipynb''" by (simp add: env_missing_def)
  from missing_notebook_runs_nothing [OF h, of 3 0 None "PInt 7" "''/r.csv''" 0 1 world0] h
  show ?thesis by simp
qed

section \<open>Claims about the payload\<close>




text \<open>
  Claim C8. A key length of 0 puts the marker \<open>e\<close>, not the text \<open>0\<close>, in the key-length
  position of the payload, whatever the device selector and the token: the field is
  chosen by the truthiness of the value.
\<close>

theorem zero_key_length_sends_sentinel:
  "key_length_field (PInt 0) = ''e'' \<and> str_int 0 = ''0'' \<and>
   build_inputs dev token (PInt 0) filename =
     (if dev = 1 then
        (case token of
           Some tok \<Rightarrow> join_lines [str_int dev, tok, ''e'', filename]
         | None \<Rightarrow> join_lines [str_int dev, ''e'', filename])
      else join_lines [str_int dev, ''e'', filename])"
  by (simp add: key_length_field_def str_int_0 build_inputs_def join_lines_def
      split: option.split)

text \<open>
  Claim C9. For every integer device selector other than 1, the payload has the simulator
  shape: the token is left out even when one is given, and the selector's own text is the
  first field.
\<close>

theorem payload_selector_not_one:
  "dev \<noteq> 1 \<Longrightarrow>
     build_inputs dev token kl filename = join_lines [str_int dev, key_length_field kl, filename]"
  by (simp add: build_inputs_def join_lines_def)

theorem payload_selector_not_one_witness:
  "(2::int) \<noteq> 1 \<and>
   build_inputs 2 (Some ''tok'') (PInt 5) ''/r.csv'' = ''2'' @ nl @ ''5'' @ nl @ ''/r.csv'' @ nl"
proof -
  have h: "(2::int) \<noteq> 1" by simp
  have e: "join_lines [str_int 2, key_length_field (PInt 5), ''/r.csv''] =
             ''2'' @ nl @ ''5'' @ nl @ ''/r.csv'' @ nl"
    by code_simp
  from payload_selector_not_one [OF h, of "Some ''tok''" "PInt 5" "''/r.csv''"] e h
  show ?thesis by simp
qed

section \<open>Claims about the repetition count\<close>

text \<open>
  Claim C10. With a repetition count of 0 or less the execution loop makes no invocation,
  prints nothing and returns normally.
\<close>

theorem executionLoop_nonpositive:
  "loop_count \<le> 0 \<Longrightarrow> executionLoop E s loop_count dev tok kl f w = (Returned, w)"
  by (simp add: executionLoop_def)

theorem executionLoop_nonpositive_witness:
  "(-3::int) \<le> 0 \<and>
   executionLoop env_ok ''q.py'' (-3) 0 None (PInt 7) ''/r.csv'' world0 = (Returned, world0)"
  using executionLoop_nonpositive [of "-3" env_ok "''q.py''" 0 None "PInt 7" "''/r.csv''" world0]
  by simp

end
